theory Spec2Isabelle
  imports Complex_Main "HOL-Library.Multiset"
begin

section \<open>Geometry utilities of kgcnn/graph/geom.py\<close>

text \<open>
  The module works on numpy arrays of floats. The embedding uses exact real arithmetic
  for finite values: rounding errors, overflow and signed zeros are outside the model.
  Where the source divides by a value that can be zero, or takes a fractional power of a
  negative number, numpy does not raise: it yields an infinity or NaN (with a warning).
  Those results are values of \<open>fval\<close>, so that HOL's own \<open>x / 0 = 0\<close> never stands in
  for what the program computes.

  Memory is unbounded in the model: the \<open>MemoryError\<close> that numpy raises when an array
  (such as a very large grid of lattice images) cannot be allocated has no counterpart
  here. The library routines \<open>np.linalg.svd\<close> and \<open>np.linalg.inv\<close> are parameters of the
  functions that call them: what they return, and whether they raise, is theirs.
\<close>

subsection \<open>Vectors and 3x3 matrices\<close>

type_synonym vec3 = "real \<times> real \<times> real"
type_synonym ivec3 = "int \<times> int \<times> int"

text \<open>A 3x3 array, given by its three rows.\<close>
type_synonym mat3 = "vec3 \<times> vec3 \<times> vec3"

datatype error = LinAlgError | TypeError | ValueError

fun vadd :: "vec3 \<Rightarrow> vec3 \<Rightarrow> vec3" where
  "vadd (a0, a1, a2) (b0, b1, b2) = (a0 + b0, a1 + b1, a2 + b2)"

fun vsub :: "vec3 \<Rightarrow> vec3 \<Rightarrow> vec3" where
  "vsub (a0, a1, a2) (b0, b1, b2) = (a0 - b0, a1 - b1, a2 - b2)"

fun vscale :: "real \<Rightarrow> vec3 \<Rightarrow> vec3" where
  "vscale c (a0, a1, a2) = (c * a0, c * a1, c * a2)"

text \<open>\<open>np.sqrt(np.sum(np.square(v), axis=-1))\<close>\<close>
fun norm3 :: "vec3 \<Rightarrow> real" where
  "norm3 (a0, a1, a2) = sqrt (a0\<^sup>2 + a1\<^sup>2 + a2\<^sup>2)"

fun transpose3 :: "mat3 \<Rightarrow> mat3" where
  "transpose3 ((a00, a01, a02), (a10, a11, a12), (a20, a21, a22)) =
     ((a00, a10, a20), (a01, a11, a21), (a02, a12, a22))"

fun det3 :: "mat3 \<Rightarrow> real" where
  "det3 ((a00, a01, a02), (a10, a11, a12), (a20, a21, a22)) =
     a00 * (a11 * a22 - a12 * a21) - a01 * (a10 * a22 - a12 * a20)
       + a02 * (a10 * a21 - a11 * a20)"

text \<open>The matrix-vector product \<open>np.dot(m, v)\<close>.\<close>
fun matvec :: "mat3 \<Rightarrow> vec3 \<Rightarrow> vec3" where
  "matvec ((a00, a01, a02), (a10, a11, a12), (a20, a21, a22)) (v0, v1, v2) =
     (a00 * v0 + a01 * v1 + a02 * v2,
      a10 * v0 + a11 * v1 + a12 * v2,
      a20 * v0 + a21 * v1 + a22 * v2)"

text \<open>The matrix product \<open>np.dot(m, n)\<close>: row \<open>i\<close> of the result is row \<open>i\<close> of \<open>m\<close> times \<open>n\<close>.\<close>
fun matmul :: "mat3 \<Rightarrow> mat3 \<Rightarrow> mat3" where
  "matmul (r0, r1, r2) n =
     (matvec (transpose3 n) r0, matvec (transpose3 n) r1, matvec (transpose3 n) r2)"

text \<open>
  The exact inverse of a 3x3 matrix: the adjugate over the determinant, and no inverse
  (\<open>LinAlgError\<close>) when the determinant is zero. It is the instance of \<open>np.linalg.inv\<close> used
  at the concrete, well-conditioned lattices below, where the routine returns this matrix
  up to rounding. It is not a description of what the routine does on every matrix: on a
  singular or nearly singular one LAPACK may raise or return a matrix of huge entries.
\<close>
fun inv3 :: "mat3 \<Rightarrow> error + mat3" where
  "inv3 ((a00, a01, a02), (a10, a11, a12), (a20, a21, a22)) =
     (let d = det3 ((a00, a01, a02), (a10, a11, a12), (a20, a21, a22)) in
      if d = 0 then Inl LinAlgError
      else Inr (((a11 * a22 - a12 * a21) / d, (a02 * a21 - a01 * a22) / d,
                 (a01 * a12 - a02 * a11) / d),
                ((a12 * a20 - a10 * a22) / d, (a00 * a22 - a02 * a20) / d,
                 (a02 * a10 - a00 * a12) / d),
                ((a10 * a21 - a11 * a20) / d, (a01 * a20 - a00 * a21) / d,
                 (a00 * a11 - a01 * a10) / d)))"

subsection \<open>Float results that are not finite\<close>

datatype fval = Fin real | PInf | NInf | NaN

fun is_finite :: "fval \<Rightarrow> bool" where
  "is_finite (Fin _) = True"
| "is_finite _ = False"

fun fneg :: "fval \<Rightarrow> fval" where
  "fneg (Fin a) = Fin (- a)"
| "fneg PInf = NInf"
| "fneg NInf = PInf"
| "fneg NaN = NaN"

fun fadd :: "fval \<Rightarrow> fval \<Rightarrow> fval" where
  "fadd NaN _ = NaN"
| "fadd _ NaN = NaN"
| "fadd (Fin a) (Fin b) = Fin (a + b)"
| "fadd PInf NInf = NaN"
| "fadd NInf PInf = NaN"
| "fadd PInf _ = PInf"
| "fadd NInf _ = NInf"
| "fadd (Fin _) PInf = PInf"
| "fadd (Fin _) NInf = NInf"

definition fsub :: "fval \<Rightarrow> fval \<Rightarrow> fval" where
  "fsub a b = fadd a (fneg b)"

text \<open>The sign of a non-NaN value: \<open>1\<close>, \<open>0\<close> or \<open>-1\<close>.\<close>
fun fsgn :: "fval \<Rightarrow> real" where
  "fsgn (Fin a) = sgn a"
| "fsgn PInf = 1"
| "fsgn NInf = - 1"
| "fsgn NaN = 0"

fun fmul :: "fval \<Rightarrow> fval \<Rightarrow> fval" where
  "fmul NaN _ = NaN"
| "fmul _ NaN = NaN"
| "fmul (Fin a) (Fin b) = Fin (a * b)"
| "fmul a b =
     (let s = fsgn a * fsgn b in if s = 0 then NaN else if 0 < s then PInf else NInf)"

text \<open>
  Division as numpy does it on floats: a finite non-zero value over zero is an infinity,
  zero over zero is NaN. The zeros that the modelled functions divide by are \<open>+0.0\<close>
  (a square root, or a product of non-negative powers), so the sign of the infinity is
  the sign of the numerator.
\<close>
fun fdiv :: "fval \<Rightarrow> fval \<Rightarrow> fval" where
  "fdiv NaN _ = NaN"
| "fdiv _ NaN = NaN"
| "fdiv (Fin a) (Fin b) =
     (if b = 0 then (if a = 0 then NaN else if 0 < a then PInf else NInf)
      else Fin (a / b))"
| "fdiv (Fin _) _ = Fin 0"
| "fdiv PInf (Fin b) = (if 0 \<le> b then PInf else NInf)"
| "fdiv NInf (Fin b) = (if 0 \<le> b then NInf else PInf)"
| "fdiv _ _ = NaN"

text \<open>\<open>x ** 2.0\<close>\<close>
fun fsquare :: "fval \<Rightarrow> fval" where
  "fsquare (Fin a) = Fin (a\<^sup>2)"
| "fsquare NaN = NaN"
| "fsquare _ = PInf"

text \<open>
  \<open>np.power(x, p)\<close> for a finite base and a fractional exponent \<open>0 < p < 1\<close>: NaN for a
  negative base.
\<close>
definition fpower :: "real \<Rightarrow> real \<Rightarrow> fval" where
  "fpower x p = (if x < 0 then NaN else Fin (x powr p))"

text \<open>\<open>np.round\<close> on a finite value: to the nearest integer, a tie to the even one.\<close>
definition np_round :: "real \<Rightarrow> int" where
  "np_round x =
     (let f = \<lfloor>x\<rfloor>; d = x - of_int f in
      if d < 1 / 2 then f else if 1 / 2 < d then f + 1
      else if even f then f else f + 1)"

text \<open>
  Rounding followed by the cast \<open>np.array(..., dtype=np.int)\<close>. The cast of NaN or of an
  infinity is not defined by numpy (it depends on the platform): \<open>None\<close>.
\<close>
fun round_to_int :: "fval \<Rightarrow> int option" where
  "round_to_int (Fin a) = Some (np_round a)"
| "round_to_int _ = None"

text \<open>
  The rounding that the specification names for charge recovery, written from its words
  (round half away from zero), for comparison with \<open>np_round\<close>.
\<close>
definition round_half_away_from_zero :: "real \<Rightarrow> int" where
  "round_half_away_from_zero x = (if 0 \<le> x then \<lfloor>x + 1 / 2\<rfloor> else \<lceil>x - 1 / 2\<rceil>)"

subsection \<open>coulomb_matrix_to_inverse_distance_proton\<close>

text \<open>
  The Coulomb matrix is a list of rows with finite entries; the source documents the
  shape \<open>(N, N)\<close>, and \<open>square_matrix\<close> states it. \<open>N\<close> is \<open>coulomb_mat.shape[-1]\<close>.
\<close>
definition square_matrix :: "real list list \<Rightarrow> bool" where
  "square_matrix m = (\<forall>r \<in> set m. length r = length m)"

text \<open>Line 18-19: \<open>z = np.power(2 * diag, 1 / 2.4)\<close>, the charges before rounding.\<close>
definition proton_values :: "real list list \<Rightarrow> fval list" where
  "proton_values coulomb_mat =
     map (\<lambda>i. fpower (2 * (coulomb_mat ! i ! i)) (1 / 2.4)) [0..<length coulomb_mat]"

definition coulomb_matrix_to_inverse_distance_proton ::
  "real list list \<Rightarrow> real \<Rightarrow> fval list list \<times> int option list" where
  "coulomb_matrix_to_inverse_distance_proton coulomb_mat unit_conversion =
     (let indslie = [0..<length coulomb_mat];
          z = proton_values coulomb_mat;
          zz = map (\<lambda>i. map (\<lambda>j. fmul (z ! j) (z ! i)) indslie) indslie;
          c = map (\<lambda>i. map (\<lambda>j. fdiv (Fin (coulomb_mat ! i ! j)) (zz ! i ! j)) indslie) indslie;
          c = map (\<lambda>i. (c ! i)[i := Fin 0]) indslie;
          c = map (map (\<lambda>x. fdiv x (Fin unit_conversion))) c
      in (c, map round_to_int z))"

subsection \<open>make_rotation_matrix\<close>

text \<open>
  The axis is an array of three finite values and the angle is in degrees. The function
  has no raising path: the division \<open>vector / norm\<close> is numpy's.
\<close>
definition make_rotation_matrix :: "vec3 \<Rightarrow> real \<Rightarrow> (fval \<times> fval \<times> fval) \<times> (fval \<times> fval \<times> fval) \<times> (fval \<times> fval \<times> fval)" where
  "make_rotation_matrix vector angle =
     (let (v0, v1, v2) = vector;
          angle = angle / 180 * pi;
          norm = sqrt (v0\<^sup>2 + v1\<^sup>2 + v2\<^sup>2);
          d0 = fdiv (Fin v0) (Fin norm);
          d1 = fdiv (Fin v1) (Fin norm);
          d2 = fdiv (Fin v2) (Fin norm);
          c = Fin (cos angle);
          s = Fin (sin angle);
          c1 = Fin (1 - cos angle);
          m00 = fadd (fmul (fsquare d0) c1) c;
          m11 = fadd (fmul (fsquare d1) c1) c;
          m22 = fadd (fmul (fsquare d2) c1) c;
          m01 = fsub (fmul (fmul d0 d1) c1) (fmul d2 s);
          m10 = fadd (fmul (fmul d0 d1) c1) (fmul d2 s);
          m02 = fadd (fmul (fmul d0 d2) c1) (fmul d1 s);
          m20 = fsub (fmul (fmul d0 d2) c1) (fmul d1 s);
          m12 = fsub (fmul (fmul d1 d2) c1) (fmul d0 s);
          m21 = fadd (fmul (fmul d1 d2) c1) (fmul d0 s)
      in ((m00, m01, m02), (m10, m11, m12), (m20, m21, m22)))"

subsection \<open>rigid_transform\<close>

text \<open>\<open>np.mean\<close> over the points of a cloud (for \<open>N \<ge> 1\<close>; numpy's mean of no points is NaN).\<close>
definition centroid :: "vec3 list \<Rightarrow> vec3" where
  "centroid ps = vscale (1 / real (length ps)) (foldr vadd ps (0, 0, 0))"

text \<open>The outer product of two vectors, one summand of \<open>np.dot(am, bm.T)\<close>.\<close>
fun outer :: "vec3 \<Rightarrow> vec3 \<Rightarrow> mat3" where
  "outer (a0, a1, a2) b = (vscale a0 b, vscale a1 b, vscale a2 b)"

fun madd :: "mat3 \<Rightarrow> mat3 \<Rightarrow> mat3" where
  "madd (r0, r1, r2) (s0, s1, s2) = (vadd r0 s0, vadd r1 s1, vadd r2 s2)"

definition cross_covariance :: "vec3 list \<Rightarrow> vec3 list \<Rightarrow> mat3" where
  "cross_covariance am bm =
     foldr madd (map (\<lambda>(p, q). outer p q) (zip am bm)) ((0, 0, 0), (0, 0, 0), (0, 0, 0))"

text \<open>
  \<open>np.linalg.svd\<close> is a library routine whose factors are not unique; it is the
  parameter \<open>svd\<close>, returning \<open>(u, s, vt)\<close>. The two \<open>print\<close> calls are left out.
  Point clouds are lists of rows; the transposes of lines 112-113 and 129 only change
  the layout. A product of a \<open>3 x N\<close> with an \<open>M x 3\<close> array raises \<open>ValueError\<close> when
  \<open>N \<noteq> M\<close>.
\<close>
definition rigid_transform ::
  "(mat3 \<Rightarrow> mat3 \<times> vec3 \<times> mat3) \<Rightarrow> vec3 list \<Rightarrow> vec3 list \<Rightarrow> bool
     \<Rightarrow> error + (vec3 list \<times> mat3 \<times> vec3)" where
  "rigid_transform svd a b correct_reflection =
     (let centroid_a = centroid a;
          centroid_b = centroid b;
          am = map (\<lambda>p. vsub p centroid_a) a;
          bm = map (\<lambda>p. vsub p centroid_b) b
      in if length a \<noteq> length b then Inl ValueError
         else
           (let h = cross_covariance am bm;
                (u, s, vt) = svd h;
                r = matmul (transpose3 vt) (transpose3 u);
                d = det3 r;
                r = (if d < 0 \<and> correct_reflection
                     then (let (vt0, vt1, vt2) = vt;
                               vt = (vt0, vt1, vscale (- 1) vt2)
                           in matmul (transpose3 vt) (transpose3 u))
                     else r);
                bout = map (\<lambda>p. vadd (matvec r p) centroid_b) am;
                t = vsub centroid_b (matvec r centroid_a)
            in Inr (bout, r, t)))"

subsection \<open>range_neighbour_lattice\<close>

text \<open>\<open>np.arange(i, j, 1)\<close> on integers.\<close>
definition arange :: "int \<Rightarrow> int \<Rightarrow> int list" where
  "arange i j = [i..j - 1]"

text \<open>
  \<open>np.array(np.meshgrid(*pos)).T.reshape(-1, 3)\<close>: with the default \<open>xy\<close> indexing the
  third axis runs slowest and the second fastest.
\<close>
fun mesh_grid_list :: "ivec3 \<Rightarrow> ivec3 \<Rightarrow> ivec3 list" where
  "mesh_grid_list (l0, l1, l2) (r0, r1, r2) =
     (let pos0 = arange l0 (r0 + 1); pos1 = arange l1 (r1 + 1); pos2 = arange l2 (r2 + 1)
      in concat (map (\<lambda>z. concat (map (\<lambda>x. map (\<lambda>y. (x, y, z)) pos1) pos0)) pos2))"

text \<open>Lines 199-200: the largest distance of a lattice vector from the centre of the cell.\<close>
fun max_radius_cell :: "mat3 \<Rightarrow> real" where
  "max_radius_cell (r0, r1, r2) =
     (let center_unit_cell = vscale (1 / 2) (vadd (vadd r0 r1) r2)
      in max (max (norm3 (vsub r0 center_unit_cell)) (norm3 (vsub r1 center_unit_cell)))
             (norm3 (vsub r2 center_unit_cell)))"

text \<open>\<open>np.sum(np.abs(m), axis=1)\<close>\<close>
fun abs_row_sums :: "mat3 \<Rightarrow> vec3" where
  "abs_row_sums ((a00, a01, a02), (a10, a11, a12), (a20, a21, a22)) =
     (\<bar>a00\<bar> + \<bar>a01\<bar> + \<bar>a02\<bar>, \<bar>a10\<bar> + \<bar>a11\<bar> + \<bar>a12\<bar>, \<bar>a20\<bar> + \<bar>a21\<bar> + \<bar>a22\<bar>)"

text \<open>Lines 204-206, given the inverse of \<open>lattice_col\<close> and the search radius.\<close>
fun bounding_box_index :: "mat3 \<Rightarrow> real \<Rightarrow> ivec3" where
  "bounding_box_index inv_col radius =
     (let (s0, s1, s2) = abs_row_sums inv_col
      in (\<lceil>s0 * radius\<rceil>, \<lceil>s1 * radius\<rceil>, \<lceil>s2 * radius\<rceil>))"

fun ineg :: "ivec3 \<Rightarrow> ivec3" where
  "ineg (n0, n1, n2) = (- n0, - n1, - n2)"

text \<open>\<open>np.dot(n, lattice_row)\<close> for one row \<open>n\<close> of the integer grid.\<close>
fun grid_real :: "mat3 \<Rightarrow> ivec3 \<Rightarrow> vec3" where
  "grid_real (r0, r1, r2) (n0, n1, n2) =
     vadd (vadd (vscale (of_int n0) r0) (vscale (of_int n1) r1)) (vscale (of_int n2) r2)"

text \<open>Lines 208-214: the images of the cell that the search keeps.\<close>
definition lattice_images :: "mat3 \<Rightarrow> mat3 \<Rightarrow> real \<Rightarrow> ivec3 list" where
  "lattice_images lattice_row inv_col radius =
     (let bounding_box_index = bounding_box_index inv_col radius;
          bounding_grid = mesh_grid_list (ineg bounding_box_index) bounding_box_index;
          bounding_grid = filter (\<lambda>n. n \<noteq> (0, 0, 0)) bounding_grid
      in filter (\<lambda>n. norm3 (grid_real lattice_row n) \<le> radius) bounding_grid)"

text \<open>
  One candidate of the search: the index pair (central node, neighbour), the image and
  the distance. The source keeps three parallel arrays \<open>dist_indices\<close>, \<open>dist_images\<close>
  and \<open>dist\<close> and applies the same permutation and the same mask to all three.
\<close>
type_synonym entry = "(nat \<times> nat) \<times> ivec3 \<times> real"

definition entry_dist :: "entry \<Rightarrow> real" where
  "entry_dist e = snd (snd e)"

text \<open>Lines 236-249: the pairs inside the central cell, for central node \<open>i\<close>.\<close>
definition center_row :: "vec3 list \<Rightarrow> bool \<Rightarrow> nat \<Rightarrow> entry list" where
  "center_row coordinates self_loops i =
     (let node_index = [0..<length coordinates];
          center = map (\<lambda>j. ((i, j), (0, 0, 0), norm3 (vsub (coordinates ! j) (coordinates ! i))))
      in if self_loops then center node_index
         else center (filter (\<lambda>j. j \<noteq> i) node_index))"

text \<open>
  Lines 227-233 and 252-256: the pairs with a node in an image, for central node \<open>i\<close>.
  The source forms the displacement as \<open>(r_j + s) - r_i\<close>, rounding after each step; the
  distance here is the exact one. The two agree up to rounding, so a distance that lies
  at the cutoff up to rounding may be selected by the program and not by the model, or
  the reverse. No statement below compares two distances that the program computes along
  different paths.
\<close>
definition image_row :: "vec3 list \<Rightarrow> mat3 \<Rightarrow> ivec3 list \<Rightarrow> nat \<Rightarrow> entry list" where
  "image_row coordinates lattice_row images i =
     concat (map (\<lambda>j. map (\<lambda>n.
         ((i, j), n,
          norm3 (vsub (vadd (coordinates ! j) (grid_real lattice_row n)) (coordinates ! i))))
       images) [0..<length coordinates])"

text \<open>
  Lines 259-284 for central node \<open>i\<close>: \<open>np.argsort\<close> with \<open>take_along_axis\<close> orders the row
  by distance (the order among equal distances is the sort routine's; here it is the
  stable one), then the mask keeps the distances up to \<open>max_distance\<close>.
\<close>
definition neighbour_row ::
  "vec3 list \<Rightarrow> mat3 \<Rightarrow> ivec3 list \<Rightarrow> real \<Rightarrow> bool \<Rightarrow> bool \<Rightarrow> nat \<Rightarrow> entry list" where
  "neighbour_row coordinates lattice_row images max_distance self_loops sort_distance i =
     (let row = center_row coordinates self_loops i @ image_row coordinates lattice_row images i;
          row_sort = (if sort_distance then sort_key entry_dist row else row)
      in filter (\<lambda>e. entry_dist e \<le> max_distance) row_sort)"

text \<open>The flattened selection over all central nodes, in row-major order.\<close>
definition neighbour_entries ::
  "vec3 list \<Rightarrow> mat3 \<Rightarrow> mat3 \<Rightarrow> real \<Rightarrow> bool \<Rightarrow> bool \<Rightarrow> entry list" where
  "neighbour_entries coordinates lattice_row inv_col max_distance self_loops sort_distance =
     (let images = lattice_images lattice_row inv_col (max_distance + max_radius_cell lattice_row)
      in concat (map (neighbour_row coordinates lattice_row images max_distance
                        self_loops sort_distance) [0..<length coordinates]))"

text \<open>
  The function, with \<open>np.linalg.inv\<close> as the parameter \<open>linalg_inv\<close>. Line 204 first
  inverts \<open>lattice_col\<close>, and an error raised by the inverse propagates to the caller. The
  same line then adds \<open>max_distance\<close>, documented as optional ("can also be None"), to a
  float, which raises \<open>TypeError\<close> for \<open>None\<close>. Without self-loops, \<open>remove_self_loops\<close>
  (lines 241-245) reshapes the \<open>N (N - 1)\<close> off-diagonal pairs to \<open>(N, N - 1, 2)\<close>; for
  an empty coordinate array that shape is \<open>(0, -1, 2)\<close> and numpy raises \<open>ValueError\<close>. The
  result is \<open>[out_indices, out_images, out_dist]\<close>.
\<close>
definition range_neighbour_lattice ::
  "(mat3 \<Rightarrow> error + mat3) \<Rightarrow> vec3 list \<Rightarrow> mat3 \<Rightarrow> real option \<Rightarrow> bool \<Rightarrow> bool
     \<Rightarrow> error + ((nat \<times> nat) list \<times> ivec3 list \<times> real list)" where
  "range_neighbour_lattice linalg_inv coordinates lattice max_distance self_loops sort_distance =
     (let lattice_col = transpose3 lattice;
          lattice_row = lattice
      in case linalg_inv lattice_col of
           Inl e \<Rightarrow> Inl e
         | Inr inv_col \<Rightarrow>
             (case max_distance of
                None \<Rightarrow> Inl TypeError
              | Some md \<Rightarrow>
                  (let out = neighbour_entries coordinates lattice_row inv_col md
                               self_loops sort_distance;
                       result = Inr (map fst out, map (fst \<circ> snd) out, map entry_dist out)
                   in if self_loops then result
                      else if coordinates = [] then Inl ValueError
                      else result)))"

text \<open>The output read back as a list of entries.\<close>
fun entries_of :: "(nat \<times> nat) list \<times> ivec3 list \<times> real list \<Rightarrow> entry list" where
  "entries_of (out_indices, out_images, out_dist) = zip out_indices (zip out_images out_dist)"

section \<open>Properties\<close>

subsection \<open>Matrices\<close>

lemma inv3_identity:
  "inv3 (transpose3 ((1, 0, 0), (0, 1, 0), (0, 0, 1))) = Inr ((1, 0, 0), (0, 1, 0), (0, 0, 1))"
  by (simp add: Let_def)

subsection \<open>Failures of range_neighbour_lattice\<close>

lemma rnl_inverse_error:
  "linalg_inv (transpose3 L) = Inl e \<Longrightarrow> range_neighbour_lattice linalg_inv cs L md sl sd = Inl e"
  by (simp add: range_neighbour_lattice_def)

lemma rnl_none:
  "linalg_inv (transpose3 L) = Inr M \<Longrightarrow>
   range_neighbour_lattice linalg_inv cs L None sl sd = Inl TypeError"
  by (simp add: range_neighbour_lattice_def)

lemma rnl_empty:
  "linalg_inv (transpose3 L) = Inr M \<Longrightarrow>
   range_neighbour_lattice linalg_inv [] L (Some md) False sd = Inl ValueError"
  by (simp add: range_neighbour_lattice_def Let_def)

lemma rnl_returns:
  assumes "linalg_inv (transpose3 L) = Inr M" and "cs \<noteq> []"
  shows "range_neighbour_lattice linalg_inv cs L (Some md) sl sd =
           Inr (map fst (neighbour_entries cs L M md sl sd),
                map (fst \<circ> snd) (neighbour_entries cs L M md sl sd),
                map entry_dist (neighbour_entries cs L M md sl sd))"
  using assms by (simp add: range_neighbour_lattice_def Let_def)

text \<open>
  Claim C2. The claim asks that \<open>max_distance=None\<close> be an unbounded cutoff and that the
  call complete. On the unit cubic lattice with one atom at the origin the call with
  \<open>None\<close> raises \<open>TypeError\<close> instead.
\<close>
theorem range_neighbour_lattice_none_type_error:
  "range_neighbour_lattice inv3 [(0, 0, 0)] ((1, 0, 0), (0, 1, 0), (0, 0, 1)) None False True
     = Inl TypeError"
  by (rule rnl_none) (rule inv3_identity)

text \<open>
  Claim C3, as amended. The function makes no degeneracy check of its own and has no
  error for a degenerate lattice: an error raised by \<open>np.linalg.inv\<close> propagates
  unchanged, and whenever \<open>np.linalg.inv\<close> returns a matrix, for a near-singular lattice as
  for any other, a call with a numeric cutoff and at least one atom runs the search on
  that matrix and returns its result.
\<close>
theorem range_neighbour_lattice_no_degeneracy_check:
  "(linalg_inv (transpose3 L) = Inl e \<longrightarrow>
      range_neighbour_lattice linalg_inv cs L md sl sd = Inl e) \<and>
   (linalg_inv (transpose3 L) = Inr M \<and> cs \<noteq> [] \<longrightarrow>
      range_neighbour_lattice linalg_inv cs L (Some d) sl sd =
        Inr (map fst (neighbour_entries cs L M d sl sd),
             map (fst \<circ> snd) (neighbour_entries cs L M d sl sd),
             map entry_dist (neighbour_entries cs L M d sl sd)))"
  using rnl_inverse_error [of linalg_inv L e cs md sl sd]
        rnl_returns [of linalg_inv L M cs d sl sd]
  by blast

theorem range_neighbour_lattice_no_degeneracy_check_witness:
  "inv3 (transpose3 ((0, 0, 0), (0, 0, 0), (0, 0, 0))) = Inl LinAlgError \<and>
   range_neighbour_lattice inv3 [(0, 0, 0)] ((0, 0, 0), (0, 0, 0), (0, 0, 0)) (Some 1) False True
     = Inl LinAlgError \<and>
   inv3 (transpose3 ((1, 0, 0), (0, 1, 0), (0, 0, 1))) = Inr ((1, 0, 0), (0, 1, 0), (0, 0, 1)) \<and>
   [(0, 0, 0) :: vec3] \<noteq> [] \<and>
   \<not> isl (range_neighbour_lattice inv3 [(0, 0, 0)] ((1, 0, 0), (0, 1, 0), (0, 0, 1)) (Some 1)
            False True)"
proof -
  have z: "inv3 (transpose3 ((0, 0, 0), (0, 0, 0), (0, 0, 0))) = Inl LinAlgError"
    by (simp add: Let_def)
  have n: "[(0, 0, 0) :: vec3] \<noteq> []" by simp
  from range_neighbour_lattice_no_degeneracy_check
         [of inv3 "((0, 0, 0), (0, 0, 0), (0, 0, 0))" LinAlgError "[(0, 0, 0)]" "Some 1" False True]
       z
  have 1: "range_neighbour_lattice inv3 [(0, 0, 0)] ((0, 0, 0), (0, 0, 0), (0, 0, 0)) (Some 1)
             False True = Inl LinAlgError"
    by blast
  from range_neighbour_lattice_no_degeneracy_check
         [of inv3 "((1, 0, 0), (0, 1, 0), (0, 0, 1))" _ "[(0, 0, 0)]" _ False True
             "((1, 0, 0), (0, 1, 0), (0, 0, 1))" 1]
       inv3_identity n
  have 2: "\<not> isl (range_neighbour_lattice inv3 [(0, 0, 0)] ((1, 0, 0), (0, 1, 0), (0, 0, 1))
                  (Some 1) False True)"
    by simp
  from z 1 inv3_identity n 2 show ?thesis by blast
qed

text \<open>
  Claim C3 as stated fails: the lattice with rows \<open>(1,0,0)\<close>, \<open>(0,1,0)\<close>, \<open>(0,0,1/1000)\<close> has
  the near-zero volume \<open>1/1000\<close> and an inverse with an entry \<open>1000\<close>, and the call with one
  atom and cutoff \<open>1\<close> does not fail: it returns a result.
\<close>
theorem range_neighbour_lattice_near_singular_returns:
  "det3 ((1, 0, 0), (0, 1, 0), (0, 0, 1 / 1000)) = 1 / 1000 \<and>
   inv3 (transpose3 ((1, 0, 0), (0, 1, 0), (0, 0, 1 / 1000)))
     = Inr ((1, 0, 0), (0, 1, 0), (0, 0, 1000)) \<and>
   \<not> isl (range_neighbour_lattice inv3 [(0, 0, 0)] ((1, 0, 0), (0, 1, 0), (0, 0, 1 / 1000))
            (Some 1) False True)"
proof -
  have i: "inv3 (transpose3 ((1, 0, 0), (0, 1, 0), (0, 0, 1 / 1000)))
     = Inr ((1, 0, 0), (0, 1, 0), (0, 0, 1000))"
    by (simp add: Let_def)
  have "[(0, 0, 0) :: vec3] \<noteq> []" by simp
  from rnl_returns [where linalg_inv = inv3, OF i this, of 1 False True] i show ?thesis by simp
qed

subsection \<open>The rotation matrix of a zero axis\<close>

text \<open>
  Claim C8, as amended. For the zero axis the call does not fail: whatever the angle, it
  returns the matrix whose nine entries are NaN.
\<close>
theorem make_rotation_matrix_zero_axis_nan:
  "make_rotation_matrix (0, 0, 0) angle
     = ((NaN, NaN, NaN), (NaN, NaN, NaN), (NaN, NaN, NaN))"
  by (simp add: make_rotation_matrix_def fsub_def)

text \<open>Claim C8 as stated fails at the zero axis and a quarter turn: a value is returned.\<close>
theorem make_rotation_matrix_zero_axis_counterexample:
  "make_rotation_matrix (0, 0, 0) 90 = ((NaN, NaN, NaN), (NaN, NaN, NaN), (NaN, NaN, NaN))"
  by (simp add: make_rotation_matrix_def fsub_def)

subsection \<open>The Coulomb matrix decoder\<close>

lemma proton_values_nth:
  "i < length C \<Longrightarrow> proton_values C ! i = fpower (2 * (C ! i ! i)) (1 / 2.4)"
  by (simp add: proton_values_def)

lemma length_proton_values: "length (proton_values C) = length C"
  by (simp add: proton_values_def)

lemma decoder_charge:
  "i < length C \<Longrightarrow>
   snd (coulomb_matrix_to_inverse_distance_proton C u) ! i = round_to_int (proton_values C ! i)"
  by (simp add: coulomb_matrix_to_inverse_distance_proton_def Let_def length_proton_values)

lemma decoder_entry:
  assumes "i < length C" "j < length C"
  shows "fst (coulomb_matrix_to_inverse_distance_proton C u) ! i ! j =
     fdiv (if j = i then Fin 0
           else fdiv (Fin (C ! i ! j)) (fmul (proton_values C ! j) (proton_values C ! i)))
          (Fin u)"
  using assms
  by (simp add: coulomb_matrix_to_inverse_distance_proton_def Let_def nth_list_update)

lemma np_round_int: "np_round (of_int n) = n"
  by (simp add: np_round_def)

lemma np_round_half: "np_round (of_int n + 1 / 2) = (if even n then n else n + 1)"
proof -
  have "\<lfloor>of_int n + 1 / 2 :: real\<rfloor> = n" by linarith
  then show ?thesis by (simp add: np_round_def Let_def)
qed

lemma np_round_five_halves: "np_round (5 / 2) = 2"
proof -
  have "\<lfloor>5 / 2 :: real\<rfloor> = 2" by linarith
  then show ?thesis by (simp add: np_round_def Let_def)
qed

lemma fdiv_zero_right_not_finite:
  "\<not> is_finite (fdiv (fdiv (Fin x) (fmul z (Fin 0))) (Fin u))"
  by (cases z) auto

lemma fdiv_zero_left_not_finite:
  "\<not> is_finite (fdiv (fdiv (Fin x) (fmul (Fin 0) z)) (Fin u))"
  by (cases z) auto

lemma five_halves_charge: "(2 * ((5 / 2) powr (12 / 5) / 2)) powr (5 / 12) = (5 / 2 :: real)"
  by (simp add: powr_powr)

lemma five_halves_proton_values:
  "proton_values [[(5 / 2) powr (12 / 5) / 2]] = [Fin (5 / 2)]"
  using five_halves_charge by (simp add: proton_values_def fpower_def powr_powr)

text \<open>
  Claim C4, as amended. For a square Coulomb matrix whose diagonal entry \<open>i\<close> is zero, the
  decoder returns the charge \<open>0\<close> at \<open>i\<close> and (for a non-zero unit conversion) a zero
  diagonal entry \<open>(i, i)\<close> of the inverse-distance matrix; every other entry of row \<open>i\<close>
  and of column \<open>i\<close> is the quotient by zero that numpy computes, an infinity or NaN.
\<close>
theorem coulomb_zero_diagonal_row_not_finite:
  assumes "square_matrix C" and "i < length C" and "C ! i ! i = 0"
  shows "snd (coulomb_matrix_to_inverse_distance_proton C u) ! i = Some 0 \<and>
         (u \<noteq> 0 \<longrightarrow> fst (coulomb_matrix_to_inverse_distance_proton C u) ! i ! i = Fin 0) \<and>
         (\<forall>j < length C. j \<noteq> i \<longrightarrow>
            \<not> is_finite (fst (coulomb_matrix_to_inverse_distance_proton C u) ! i ! j) \<and>
            \<not> is_finite (fst (coulomb_matrix_to_inverse_distance_proton C u) ! j ! i))"
proof -
  have z: "proton_values C ! i = Fin 0"
    using assms by (simp add: proton_values_nth fpower_def)
  have "np_round 0 = 0" using np_round_int [of 0] by simp
  with z assms have 1: "snd (coulomb_matrix_to_inverse_distance_proton C u) ! i = Some 0"
    by (simp add: decoder_charge)
  have 2: "u \<noteq> 0 \<longrightarrow> fst (coulomb_matrix_to_inverse_distance_proton C u) ! i ! i = Fin 0"
    using assms by (simp add: decoder_entry)
  have 3: "\<not> is_finite (fst (coulomb_matrix_to_inverse_distance_proton C u) ! i ! j) \<and>
           \<not> is_finite (fst (coulomb_matrix_to_inverse_distance_proton C u) ! j ! i)"
    if "j < length C" "j \<noteq> i" for j
    using that assms z fdiv_zero_right_not_finite fdiv_zero_left_not_finite
    by (simp add: decoder_entry)
  from 1 2 3 show ?thesis by blast
qed

theorem coulomb_zero_diagonal_row_not_finite_witness:
  "square_matrix [[0, 1], [1, 1 / 2]] \<and> (0::nat) < length [[0, 1], [1, 1 / 2 :: real]] \<and>
   [[0, 1], [1, 1 / 2 :: real]] ! 0 ! 0 = 0 \<and>
   snd (coulomb_matrix_to_inverse_distance_proton [[0, 1], [1, 1 / 2]] 1) ! 0 = Some 0 \<and>
   fst (coulomb_matrix_to_inverse_distance_proton [[0, 1], [1, 1 / 2]] 1) ! 0 ! 0 = Fin 0 \<and>
   \<not> is_finite (fst (coulomb_matrix_to_inverse_distance_proton [[0, 1], [1, 1 / 2]] 1) ! 0 ! 1) \<and>
   \<not> is_finite (fst (coulomb_matrix_to_inverse_distance_proton [[0, 1], [1, 1 / 2]] 1) ! 1 ! 0)"
proof -
  have sq: "square_matrix [[0, 1], [1, 1 / 2]]" by (simp add: square_matrix_def)
  have i: "(0::nat) < length [[0, 1], [1, 1 / 2 :: real]]" by simp
  have z: "[[0, 1], [1, 1 / 2 :: real]] ! 0 ! 0 = 0" by simp
  from coulomb_zero_diagonal_row_not_finite [OF sq i z, of 1] sq show ?thesis by simp
qed

text \<open>
  Claim C4 as stated fails on the matrix \<open>[[0, 1], [1, 1/2]]\<close>: the diagonal entry \<open>0\<close> is
  zero, and entry \<open>(0, 1)\<close> of the inverse-distance matrix is \<open>+inf\<close>, not zero.
\<close>
theorem coulomb_zero_diagonal_counterexample:
  "fst (coulomb_matrix_to_inverse_distance_proton [[0, 1], [1, 1 / 2]] 1) ! 0 ! 1 = PInf"
  by (simp add: coulomb_matrix_to_inverse_distance_proton_def proton_values_def fpower_def Let_def)

text \<open>
  Claim C6, as amended. The returned atomic numbers are integers, and a recovered charge
  lying exactly halfway between two integers is rounded to the even one of the two
  (\<open>np.round\<close>), not away from zero.
\<close>
theorem coulomb_charge_rounds_half_to_even:
  assumes "i < length C" and "proton_values C ! i = Fin (of_int n + 1 / 2)"
  shows "snd (coulomb_matrix_to_inverse_distance_proton C u) ! i =
           Some (if even n then n else n + 1)"
  using assms by (simp add: decoder_charge np_round_half del: of_int_add)

theorem coulomb_charge_rounds_half_to_even_witness:
  "(0::nat) < length [[(5 / 2) powr (12 / 5) / 2 :: real]] \<and>
   proton_values [[(5 / 2) powr (12 / 5) / 2]] ! 0 = Fin (of_int 2 + 1 / 2) \<and>
   snd (coulomb_matrix_to_inverse_distance_proton [[(5 / 2) powr (12 / 5) / 2]] 1) ! 0 = Some 2"
proof -
  have i: "(0::nat) < length [[(5 / 2) powr (12 / 5) / 2 :: real]]" by simp
  have z: "proton_values [[(5 / 2) powr (12 / 5) / 2]] ! 0 = Fin (of_int 2 + 1 / 2)"
    by (simp add: five_halves_proton_values)
  from coulomb_charge_rounds_half_to_even [OF i z, of 1] i z show ?thesis by simp
qed

text \<open>
  Claim C6 as stated fails on the one-atom matrix whose recovered charge is \<open>5/2\<close>: the
  decoder returns \<open>2\<close>, where rounding half away from zero gives \<open>3\<close>.
\<close>
theorem coulomb_charge_half_away_counterexample:
  "proton_values [[(5 / 2) powr (12 / 5) / 2]] = [Fin (5 / 2)] \<and>
   snd (coulomb_matrix_to_inverse_distance_proton [[(5 / 2) powr (12 / 5) / 2]] 1) = [Some 2] \<and>
   round_half_away_from_zero (5 / 2) = 3"
proof -
  have "\<lfloor>3 :: real\<rfloor> = 3" by simp
  then have "round_half_away_from_zero (5 / 2) = 3"
    by (simp add: round_half_away_from_zero_def)
  with five_halves_proton_values show ?thesis
    by (simp add: coulomb_matrix_to_inverse_distance_proton_def Let_def np_round_five_halves)
qed

subsection \<open>The rigid transform\<close>

lemma rigid_aux: "vadd (matvec r (vsub p ca)) cb = vadd (matvec r p) (vsub cb (matvec r ca))"
  by (cases r rule: transpose3.cases; cases p; cases ca; cases cb) (simp add: algebra_simps)

lemma rigid_transform_shape:
  assumes "length a = length b"
  shows "case rigid_transform svd a b correct_reflection of
           Inl e \<Rightarrow> False
         | Inr (bout, r, t) \<Rightarrow>
             bout = map (\<lambda>p. vadd (matvec r (vsub p (centroid a))) (centroid b)) a \<and>
             t = vsub (centroid b) (matvec r (centroid a))"
proof -
  obtain u s vt0 vt1 vt2 where
    "svd (cross_covariance (map (\<lambda>p. vsub p (centroid a)) a) (map (\<lambda>p. vsub p (centroid b)) b))
       = (u, s, (vt0, vt1, vt2))"
    by (metis prod_cases3)
  with assms show ?thesis
    unfolding rigid_transform_def Let_def by (simp add: comp_def)
qed

text \<open>
  Claim C7. For two clouds of the same number \<open>N \<ge> 1\<close> of points, whatever factors the
  singular value decomposition returns, \<open>rigid_transform\<close> returns a triple
  \<open>(A_aligned, R, t)\<close> in which row \<open>k\<close> of \<open>A_aligned\<close> is \<open>R\<close> applied to row \<open>k\<close> of \<open>A\<close>
  plus \<open>t\<close>, with \<open>t = centroid B - R (centroid A)\<close>.
\<close>
theorem rigid_transform_affine:
  assumes "length a = length b" and "1 \<le> length a"
  shows "\<exists>bout r t. rigid_transform svd a b correct_reflection = Inr (bout, r, t) \<and>
           length bout = length a \<and>
           (\<forall>k < length a. bout ! k = vadd (matvec r (a ! k)) t) \<and>
           t = vsub (centroid b) (matvec r (centroid a))"
proof (cases "rigid_transform svd a b correct_reflection")
  case (Inl e)
  with rigid_transform_shape [OF assms(1), of svd correct_reflection] show ?thesis by simp
next
  case (Inr res)
  obtain bout r t where res: "res = (bout, r, t)" by (metis prod_cases3)
  with Inr rigid_transform_shape [OF assms(1), of svd correct_reflection]
  have "bout = map (\<lambda>p. vadd (matvec r (vsub p (centroid a))) (centroid b)) a"
    and "t = vsub (centroid b) (matvec r (centroid a))" by simp_all
  with Inr res show ?thesis by (simp add: rigid_aux)
qed

theorem rigid_transform_affine_witness:
  "length [(1, 2, 3), (0, 1, 0) :: vec3] = length [(0, 0, 1), (2, 0, 0) :: vec3] \<and>
   1 \<le> length [(1, 2, 3), (0, 1, 0) :: vec3] \<and>
   (\<exists>bout r t.
      rigid_transform
        (\<lambda>h. (((1, 0, 0), (0, 1, 0), (0, 0, 1)), (1, 1, 1), ((1, 0, 0), (0, 1, 0), (0, 0, 1))))
        [(1, 2, 3), (0, 1, 0)] [(0, 0, 1), (2, 0, 0)] False = Inr (bout, r, t) \<and>
      length bout = length [(1, 2, 3), (0, 1, 0) :: vec3] \<and>
      (\<forall>k < length [(1, 2, 3), (0, 1, 0) :: vec3].
         bout ! k = vadd (matvec r ([(1, 2, 3), (0, 1, 0)] ! k)) t) \<and>
      t = vsub (centroid [(0, 0, 1), (2, 0, 0)]) (matvec r (centroid [(1, 2, 3), (0, 1, 0)])))"
proof -
  have l: "length [(1, 2, 3), (0, 1, 0) :: vec3] = length [(0, 0, 1), (2, 0, 0) :: vec3]" by simp
  have n: "1 \<le> length [(1, 2, 3), (0, 1, 0) :: vec3]" by simp
  from rigid_transform_affine [OF l n] l n show ?thesis by blast
qed

subsection \<open>The output of range_neighbour_lattice as rows of entries\<close>

lemma entries_of_maps:
  "entries_of (map fst out, map (fst \<circ> snd) out, map entry_dist out) = out"
  by (induction out) (simp_all add: entry_dist_def)

lemma set_center_row:
  "set (center_row cs sl i) =
     {((i, j), (0, 0, 0), norm3 (vsub (cs ! j) (cs ! i))) | j. j < length cs \<and> (sl \<or> j \<noteq> i)}"
  by (auto simp add: center_row_def Let_def)

lemma set_image_row:
  "set (image_row cs L imgs i) =
     {((i, j), n, norm3 (vsub (vadd (cs ! j) (grid_real L n)) (cs ! i))) | j n.
        j < length cs \<and> n \<in> set imgs}"
  by (auto simp add: image_row_def)

lemma set_neighbour_row:
  "set (neighbour_row cs L imgs md sl sd i) =
     {e \<in> set (center_row cs sl i) \<union> set (image_row cs L imgs i). entry_dist e \<le> md}"
  by (auto simp add: neighbour_row_def Let_def)

lemma neighbour_row_central:
  "e \<in> set (neighbour_row cs L imgs md sl sd i) \<Longrightarrow> fst (fst e) = i"
  by (auto simp add: set_neighbour_row set_center_row set_image_row)

lemma sorted_neighbour_row:
  "sorted (map entry_dist (neighbour_row cs L imgs md sl True i))"
  by (simp add: neighbour_row_def Let_def sorted_filter)

lemma sorted_map_const:
  "(\<forall>x \<in> set xs. g x = (c::nat)) \<Longrightarrow> sorted (map g xs)"
  by (induction xs) simp_all

lemma sorted_concat_rows:
  fixes g :: "'a \<Rightarrow> nat"
  assumes "\<And>j e. e \<in> set (f j) \<Longrightarrow> g e = j"
  shows "sorted (map g (concat (map f [0..<n])))"
proof (induction n)
  case 0
  show ?case by simp
next
  case (Suc n)
  have "sorted (map g (f n))" using assms by (intro sorted_map_const [where c = n]) simp
  moreover have "\<forall>x \<in> set (concat (map f [0..<n])). \<forall>y \<in> set (f n). g x \<le> g y"
    using assms by auto
  ultimately show ?case using Suc by (simp add: sorted_append)
qed

lemma filter_concat_rows:
  fixes g :: "'a \<Rightarrow> nat"
  assumes "\<And>j e. e \<in> set (f j) \<Longrightarrow> g e = j"
  shows "filter (\<lambda>e. g e = i) (concat (map f [0..<n])) = (if i < n then f i else [])"
proof (induction n)
  case 0
  show ?case by simp
next
  case (Suc n)
  have same: "filter (\<lambda>e. g e = i) (f i) = f i"
    using assms by (simp add: filter_id_conv)
  have other: "filter (\<lambda>e. g e = i) (f n) = []" if "i \<noteq> n"
    using assms that by (auto simp add: filter_empty_conv)
  show ?case
  proof (cases "i = n")
    case True
    with Suc same show ?thesis by simp
  next
    case False
    with Suc other show ?thesis by auto
  qed
qed


text \<open>
  Claim C10. For a lattice that \<open>np.linalg.inv\<close> inverts, a numeric cutoff and at least one
  atom, the three output sequences have the same length, the central node indices of the
  output are in ascending order (so each central node's entries are contiguous), and
  with \<open>sort_distance=True\<close> the distances of each central node's entries are in
  non-decreasing order.
\<close>
theorem range_neighbour_lattice_grouped_sorted:
  assumes "linalg_inv (transpose3 L) = Inr M" and "cs \<noteq> []"
  shows "\<exists>ind img dist.
           range_neighbour_lattice linalg_inv cs L (Some md) sl sd = Inr (ind, img, dist) \<and>
           length img = length ind \<and> length dist = length ind \<and>
           sorted (map fst ind) \<and>
           (sd \<longrightarrow> (\<forall>i. sorted (map entry_dist
                      (filter (\<lambda>e. fst (fst e) = i) (entries_of (ind, img, dist))))))"
proof -
  have r: "range_neighbour_lattice linalg_inv cs L (Some md) sl sd =
          Inr (map fst (neighbour_entries cs L M md sl sd),
               map (fst \<circ> snd) (neighbour_entries cs L M md sl sd),
               map entry_dist (neighbour_entries cs L M md sl sd))"
    using assms by (rule rnl_returns)
  define imgs where "imgs = lattice_images L M (md + max_radius_cell L)"
  define row where "row = neighbour_row cs L imgs md sl sd"
  have out: "neighbour_entries cs L M md sl sd = concat (map row [0..<length cs])"
    by (simp add: neighbour_entries_def Let_def row_def imgs_def)
  have central: "fst (fst e) = j" if "e \<in> set (row j)" for j e
    using that unfolding row_def by (rule neighbour_row_central)
  have grouped: "sorted (map (\<lambda>e. fst (fst e)) (concat (map row [0..<length cs])))"
    using central by (rule sorted_concat_rows)
  have group: "sorted (map entry_dist
      (filter (\<lambda>e. fst (fst e) = i) (concat (map row [0..<length cs]))))" if sd for i
  proof -
    have "filter (\<lambda>e. fst (fst e) = i) (concat (map row [0..<length cs]))
            = (if i < length cs then row i else [])"
      using central by (rule filter_concat_rows)
    moreover have "sorted (map entry_dist (row i))"
      using that by (simp add: row_def sorted_neighbour_row)
    ultimately show ?thesis by simp
  qed
  let ?out = "concat (map row [0..<length cs])"
  from grouped have g: "sorted (map fst (map fst ?out))" by (simp add: comp_def)
  show ?thesis
  proof (intro exI conjI)
    show "range_neighbour_lattice linalg_inv cs L (Some md) sl sd =
            Inr (map fst ?out, map (fst \<circ> snd) ?out, map entry_dist ?out)"
      using r out by simp
    show "sorted (map fst (map fst ?out))" by (rule g)
    show "sd \<longrightarrow> (\<forall>i. sorted (map entry_dist (filter (\<lambda>e. fst (fst e) = i)
             (entries_of (map fst ?out, map (fst \<circ> snd) ?out, map entry_dist ?out)))))"
      unfolding entries_of_maps using group by blast
  qed simp_all
qed

theorem range_neighbour_lattice_grouped_sorted_witness:
  "inv3 (transpose3 ((1, 0, 0), (0, 1, 0), (0, 0, 1))) = Inr ((1, 0, 0), (0, 1, 0), (0, 0, 1)) \<and>
   [(0, 0, 0), (1 / 2, 1 / 2, 1 / 2) :: vec3] \<noteq> [] \<and>
   (\<exists>ind img dist.
      range_neighbour_lattice inv3 [(0, 0, 0), (1 / 2, 1 / 2, 1 / 2)]
        ((1, 0, 0), (0, 1, 0), (0, 0, 1)) (Some 1) False True = Inr (ind, img, dist) \<and>
      length img = length ind \<and> length dist = length ind \<and>
      sorted (map fst ind) \<and>
      (\<forall>i. sorted (map entry_dist
         (filter (\<lambda>e. fst (fst e) = i) (entries_of (ind, img, dist))))))"
proof -
  have n: "[(0, 0, 0), (1 / 2, 1 / 2, 1 / 2) :: vec3] \<noteq> []" by simp
  from range_neighbour_lattice_grouped_sorted
         [where linalg_inv = inv3, OF inv3_identity n, of 1 False True]
       inv3_identity n
  show ?thesis by simp
qed

subsection \<open>Self-loops\<close>


lemma norm3_shift_self: "norm3 (vsub (vadd a s) a) = norm3 s"
  by (cases a; cases s) simp


















subsection \<open>The simple cubic lattice\<close>

lemma cubic_grid_filter:
  "filter (\<lambda>n. case n of (n0, n1, n2) \<Rightarrow> n0\<^sup>2 + n1\<^sup>2 + n2\<^sup>2 = 1)
     (mesh_grid_list (- 2, - 2, - 2) (2, 2, 2)) =
   [(0, 0, - 1), (- 1, 0, 0), (0, - 1, 0), (0, 1, 0), (1, 0, 0), (0, 0, 1)]"
  by code_simp

lemma cubic_inv3:
  "a \<noteq> 0 \<Longrightarrow> inv3 (transpose3 ((a, 0, 0), (0, a, 0), (0, 0, a))) =
     Inr ((1 / a, 0, 0), (0, 1 / a, 0), (0, 0, 1 / a))"
  by (simp add: Let_def power3_eq_cube [symmetric] power2_eq_square [symmetric] field_simps)

lemma cubic_max_radius_cell:
  assumes "0 < a"
  shows "max_radius_cell ((a, 0, 0), (0, a, 0), (0, 0, a)) = a * sqrt 3 / 2"
proof -
  have "sqrt (3 * (a / 2)\<^sup>2) = sqrt 3 * (a / 2)"
    using assms by (simp add: real_sqrt_mult)
  moreover have "(a - a / 2)\<^sup>2 + (a / 2)\<^sup>2 + (a / 2)\<^sup>2 = 3 * (a / 2)\<^sup>2"
    by (simp add: power2_eq_square field_simps)
  ultimately show ?thesis
    by (simp add: Let_def add.commute add.left_commute)
qed

lemma sqrt3_bounds: "1 < sqrt 3" "sqrt 3 < 9 / 5"
proof -
  show "1 < sqrt 3" by simp
  have "sqrt 3 < sqrt ((9 / 5)\<^sup>2)"
    by (subst real_sqrt_less_iff) (simp add: power2_eq_square)
  then show "sqrt 3 < 9 / 5" by simp
qed

lemma cubic_bounding_box_index:
  assumes "0 < a"
  shows "bounding_box_index ((1 / a, 0, 0), (0, 1 / a, 0), (0, 0, 1 / a))
           (11 / 10 * a + a * sqrt 3 / 2) = (2, 2, 2)"
proof -
  have "1 / a * (11 / 10 * a + a * sqrt 3 / 2) = 11 / 10 + sqrt 3 / 2"
    using assms by (simp add: field_simps)
  moreover have "\<lceil>11 / 10 + sqrt 3 / 2\<rceil> = 2"
  proof (rule ceiling_unique)
    have "0 \<le> sqrt 3 / 2" by simp
    then have "1 < 11 / 10 + sqrt 3 / 2" by linarith
    then show "of_int 2 - 1 < 11 / 10 + sqrt 3 / 2" by simp
    show "11 / 10 + sqrt 3 / 2 \<le> of_int 2" using sqrt3_bounds(2) by simp
  qed
  ultimately show ?thesis using assms by simp
qed

lemma cubic_norm3:
  assumes "0 < a"
  shows "norm3 (grid_real ((a, 0, 0), (0, a, 0), (0, 0, a)) (n0, n1, n2)) =
           a * sqrt (of_int (n0\<^sup>2 + n1\<^sup>2 + n2\<^sup>2))"
proof -
  have "(of_int n0 * a)\<^sup>2 + (of_int n1 * a)\<^sup>2 + (of_int n2 * a)\<^sup>2 =
        a\<^sup>2 * of_int (n0\<^sup>2 + n1\<^sup>2 + n2\<^sup>2)"
    by (simp add: power2_eq_square algebra_simps)
  then show ?thesis using assms by (simp add: real_sqrt_mult)
qed

lemma cubic_within_cutoff:
  assumes "0 < a"
  shows "norm3 (grid_real ((a, 0, 0), (0, a, 0), (0, 0, a)) (n0, n1, n2)) \<le> 11 / 10 * a
           \<longleftrightarrow> n0\<^sup>2 + n1\<^sup>2 + n2\<^sup>2 \<le> 1"
proof -
  let ?k = "n0\<^sup>2 + n1\<^sup>2 + n2\<^sup>2"
  have "a * sqrt (of_int ?k) \<le> 11 / 10 * a \<longleftrightarrow> sqrt (of_int ?k) \<le> 11 / 10"
    using assms by simp
  also have "\<dots> \<longleftrightarrow> sqrt (of_int ?k) \<le> sqrt ((11 / 10)\<^sup>2)" by simp
  also have "\<dots> \<longleftrightarrow> (of_int ?k :: real) \<le> (11 / 10)\<^sup>2"
    by (rule real_sqrt_le_iff)
  also have "\<dots> \<longleftrightarrow> (of_int ?k :: real) \<le> 121 / 100" by (simp add: power2_eq_square)
  also have "\<dots> \<longleftrightarrow> ?k \<le> 1"
  proof
    assume "(of_int ?k :: real) \<le> 121 / 100"
    then have "(of_int ?k :: real) < 2" by linarith
    then have "?k < 2" by linarith
    then show "?k \<le> 1" by linarith
  next
    assume "?k \<le> 1"
    then have "(of_int ?k :: real) \<le> 1" by linarith
    then show "(of_int ?k :: real) \<le> 121 / 100" by linarith
  qed
  finally show ?thesis unfolding cubic_norm3 [OF assms] .
qed

lemma int_squares_one:
  fixes n0 n1 n2 :: int
  shows "(n0, n1, n2) \<noteq> (0, 0, 0) \<and> n0\<^sup>2 + n1\<^sup>2 + n2\<^sup>2 \<le> 1 \<longleftrightarrow> n0\<^sup>2 + n1\<^sup>2 + n2\<^sup>2 = 1"
proof -
  have z: "n0\<^sup>2 + n1\<^sup>2 + n2\<^sup>2 = 0 \<longleftrightarrow> (n0, n1, n2) = (0, 0, 0)"
  proof
    assume h: "n0\<^sup>2 + n1\<^sup>2 + n2\<^sup>2 = 0"
    have "0 \<le> n0\<^sup>2" "0 \<le> n1\<^sup>2" "0 \<le> n2\<^sup>2" by simp_all
    with h have "n0\<^sup>2 = 0" "n1\<^sup>2 = 0" "n2\<^sup>2 = 0" by linarith+
    then show "(n0, n1, n2) = (0, 0, 0)" by simp
  qed simp
  have "0 \<le> n0\<^sup>2 + n1\<^sup>2 + n2\<^sup>2" by simp
  with z show ?thesis by linarith
qed

lemma cubic_images_within_cutoff:
  assumes "0 < a"
  shows "filter (\<lambda>n. norm3 (grid_real ((a, 0, 0), (0, a, 0), (0, 0, a)) n) \<le> 11 / 10 * a)
           (lattice_images ((a, 0, 0), (0, a, 0), (0, 0, a))
              ((1 / a, 0, 0), (0, 1 / a, 0), (0, 0, 1 / a))
              (11 / 10 * a + max_radius_cell ((a, 0, 0), (0, a, 0), (0, 0, a)))) =
         [(0, 0, - 1), (- 1, 0, 0), (0, - 1, 0), (0, 1, 0), (1, 0, 0), (0, 0, 1)]"
proof -
  let ?L = "((a, 0, 0), (0, a, 0), (0, 0, a))"
  let ?r = "11 / 10 * a + a * sqrt 3 / 2"
  have r: "11 / 10 * a \<le> ?r" using assms by simp
  have pred: "(n \<noteq> (0, 0, 0) \<and> norm3 (grid_real ?L n) \<le> ?r) \<and> norm3 (grid_real ?L n) \<le> 11 / 10 * a
      \<longleftrightarrow> (case n of (n0, n1, n2) \<Rightarrow> n0\<^sup>2 + n1\<^sup>2 + n2\<^sup>2 = 1)" for n
  proof -
    obtain n0 n1 n2 where n: "n = (n0, n1, n2)" by (metis prod_cases3)
    have "(n \<noteq> (0, 0, 0) \<and> norm3 (grid_real ?L n) \<le> ?r) \<and> norm3 (grid_real ?L n) \<le> 11 / 10 * a
        \<longleftrightarrow> n \<noteq> (0, 0, 0) \<and> norm3 (grid_real ?L n) \<le> 11 / 10 * a"
      using r by linarith
    also have "\<dots> \<longleftrightarrow> (n0, n1, n2) \<noteq> (0, 0, 0) \<and> n0\<^sup>2 + n1\<^sup>2 + n2\<^sup>2 \<le> 1"
      unfolding n cubic_within_cutoff [OF assms] ..
    also have "\<dots> \<longleftrightarrow> n0\<^sup>2 + n1\<^sup>2 + n2\<^sup>2 = 1" by (rule int_squares_one)
    finally show ?thesis unfolding n by simp
  qed
  have "filter (\<lambda>n. norm3 (grid_real ?L n) \<le> 11 / 10 * a)
          (lattice_images ?L ((1 / a, 0, 0), (0, 1 / a, 0), (0, 0, 1 / a)) ?r)
        = filter (\<lambda>n. (n \<noteq> (0, 0, 0) \<and> norm3 (grid_real ?L n) \<le> ?r)
                        \<and> norm3 (grid_real ?L n) \<le> 11 / 10 * a)
            (mesh_grid_list (- 2, - 2, - 2) (2, 2, 2))"
    unfolding lattice_images_def Let_def cubic_bounding_box_index [OF assms] ineg.simps filter_filter
    by simp
  also have "\<dots> = filter (\<lambda>n. case n of (n0, n1, n2) \<Rightarrow> n0\<^sup>2 + n1\<^sup>2 + n2\<^sup>2 = 1)
                      (mesh_grid_list (- 2, - 2, - 2) (2, 2, 2))"
    by (rule filter_cong [OF refl]) (rule pred)
  finally show ?thesis
    unfolding cubic_max_radius_cell [OF assms] cubic_grid_filter .
qed

lemma cubic_neighbour_entries:
  assumes "0 < a"
  shows "neighbour_entries [(0, 0, 0)] ((a, 0, 0), (0, a, 0), (0, 0, a))
           ((1 / a, 0, 0), (0, 1 / a, 0), (0, 0, 1 / a)) (11 / 10 * a) False sd =
         map (\<lambda>n. ((0, 0), n, a))
           [(0, 0, - 1), (- 1, 0, 0), (0, - 1, 0), (0, 1, 0), (1, 0, 0), (0, 0, 1)]"
proof -
  let ?L = "((a, 0, 0), (0, a, 0), (0, 0, a))"
  let ?imgs = "lattice_images ?L ((1 / a, 0, 0), (0, 1 / a, 0), (0, 0, 1 / a))
                 (11 / 10 * a + max_radius_cell ?L)"
  let ?six = "[(0, 0, - 1), (- 1, 0, 0), (0, - 1, 0), (0, 1, 0), (1, 0, 0), (0, 0, 1) :: ivec3]"
  let ?g = "\<lambda>n. ((0 :: nat, 0 :: nat), n, norm3 (grid_real ?L n))"
  have row: "center_row [(0, 0, 0)] False 0 @ image_row [(0, 0, 0)] ?L ?imgs 0 = map ?g ?imgs"
    by (simp add: center_row_def image_row_def Let_def norm3_shift_self [of "(0, 0, 0)", simplified]
        del: grid_real.simps norm3.simps)
  have "filter (\<lambda>e. entry_dist e \<le> 11 / 10 * a) (map ?g ?imgs)
          = map ?g (filter (\<lambda>n. norm3 (grid_real ?L n) \<le> 11 / 10 * a) ?imgs)"
    by (simp add: filter_map comp_def entry_dist_def del: grid_real.simps norm3.simps)
  also have "\<dots> = map ?g ?six"
    unfolding cubic_images_within_cutoff [OF assms] ..
  also have "\<dots> = map (\<lambda>n. ((0, 0), n, a)) ?six"
    using assms by (simp add: cubic_norm3)
  finally have sel: "filter (\<lambda>e. entry_dist e \<le> 11 / 10 * a) (map ?g ?imgs)
      = map (\<lambda>n. ((0, 0), n, a)) ?six" .
  have srt: "sort_key entry_dist (map (\<lambda>n. ((0 :: nat, 0 :: nat), n, a)) ?six)
      = map (\<lambda>n. ((0, 0), n, a)) ?six"
    by (rule sort_key_id_if_sorted) (simp add: entry_dist_def)
  have "neighbour_row [(0, 0, 0)] ?L ?imgs (11 / 10 * a) False sd 0
      = map (\<lambda>n. ((0, 0), n, a)) ?six"
  proof (cases sd)
    case True
    then show ?thesis
      unfolding neighbour_row_def Let_def row by (simp only: if_True filter_sort sel srt)
  next
    case False
    then show ?thesis
      unfolding neighbour_row_def Let_def row by (simp only: if_False sel)
  qed
  then show ?thesis
    unfolding neighbour_entries_def Let_def by simp
qed

text \<open>
  Claim C1. For the simple cubic lattice of lattice constant \<open>a > 0\<close> with one atom at the
  origin, without self-loops and with \<open>max_distance = 1.1 a\<close>, the call returns exactly six
  entries: all with index pair \<open>(0, 0)\<close>, their images the six face neighbours, each at
  distance \<open>a\<close>. This holds with and without sorting.
\<close>
theorem range_neighbour_lattice_simple_cubic:
  assumes "0 < a"
  shows "\<exists>ind img dist.
           range_neighbour_lattice inv3 [(0, 0, 0)] ((a, 0, 0), (0, a, 0), (0, 0, a))
             (Some (11 / 10 * a)) False sd = Inr (ind, img, dist) \<and>
           ind = replicate 6 (0, 0) \<and>
           mset img = mset [(1, 0, 0), (- 1, 0, 0), (0, 1, 0), (0, - 1, 0), (0, 0, 1), (0, 0, - 1)] \<and>
           dist = replicate 6 a"
proof -
  let ?out = "map (\<lambda>n. ((0 :: nat, 0 :: nat), n, a))
                [(0, 0, - 1), (- 1, 0, 0), (0, - 1, 0), (0, 1, 0), (1, 0, 0), (0, 0, 1) :: ivec3]"
  from assms have "a \<noteq> 0" by simp
  then have inv: "inv3 (transpose3 ((a, 0, 0), (0, a, 0), (0, 0, a))) =
      Inr ((1 / a, 0, 0), (0, 1 / a, 0), (0, 0, 1 / a))"
    by (rule cubic_inv3)
  have "[(0, 0, 0) :: vec3] \<noteq> []" by simp
  from rnl_returns [where linalg_inv = inv3, OF inv this, of "11 / 10 * a" False sd]
  have "range_neighbour_lattice inv3 [(0, 0, 0)] ((a, 0, 0), (0, a, 0), (0, 0, a))
             (Some (11 / 10 * a)) False sd
      = Inr (map fst ?out, map (fst \<circ> snd) ?out, map entry_dist ?out)"
    by (simp only: cubic_neighbour_entries [OF assms])
  then show ?thesis
    by (simp add: entry_dist_def numeral_eq_Suc)
qed

theorem range_neighbour_lattice_simple_cubic_witness:
  "(0 :: real) < 1 \<and>
   (\<exists>ind img dist.
      range_neighbour_lattice inv3 [(0, 0, 0)] ((1, 0, 0), (0, 1, 0), (0, 0, 1))
        (Some (11 / 10 * 1)) False True = Inr (ind, img, dist) \<and>
      ind = replicate 6 (0, 0) \<and>
      mset img = mset [(1, 0, 0), (- 1, 0, 0), (0, 1, 0), (0, - 1, 0), (0, 0, 1), (0, 0, - 1)] \<and>
      dist = replicate 6 1)"
proof -
  have a: "(0 :: real) < 1" by simp
  from range_neighbour_lattice_simple_cubic [OF a, of True] a show ?thesis by blast
qed

end
